theory Spec2Isabelle
  imports Complex_Main
begin

section \<open>JavaScript values, strings and exceptions\<close>

text \<open>
  The adapters of \<^verbatim>\<open>src/index.ts\<close> work on untyped JSON payloads (\<^verbatim>\<open>any\<close>).
  A payload is a value of \<open>js\<close>; an object is an association list in property order,
  where the first binding of a key counts. A number of a payload is a rational (every
  finite double is one); scores, which may be half-integers, are rationals too. A
  string is a list of code units below 256. A limit is a natural number.
  What \<^verbatim>\<open>console.error\<close> prints is left out, but not the exceptions that building the
  printed text can throw.
\<close>

datatype js =
    JUndefined
  | JNull
  | JBool bool
  | JNum rat
  | JStr string
  | JArr "js list"
  | JObj "(string \<times> js) list"

text \<open>What a \<^verbatim>\<open>throw\<close> carries: the two runtime errors, and the error of axios
  with its \<^verbatim>\<open>code\<close> and, when a response arrived, its status.\<close>

datatype exn = SyntaxError | TypeError | AxiosError string "nat option"

subsection \<open>Strings\<close>

text \<open>\<^verbatim>\<open>String.prototype.toLowerCase\<close> on code units below 256: the letters A-Z and
  the accented capitals 0xC0-0xDE (0xD7, the multiplication sign, apart) gain bit 5.\<close>

definition toLowerChar :: "char \<Rightarrow> char" where
  "toLowerChar c =
     (let n = (of_char c :: nat) in
      if (65 \<le> n \<and> n \<le> 90) \<or> (192 \<le> n \<and> n \<le> 222 \<and> n \<noteq> 215)
      then Char (digit0 c) (digit1 c) (digit2 c) (digit3 c) (digit4 c) True (digit6 c) (digit7 c)
      else c)"

definition toLowerCase :: "string \<Rightarrow> string" where
  "toLowerCase s = map toLowerChar s"

text \<open>The class \<^verbatim>\<open>\s\<close> below 256: tab, line feed, vertical tab, form feed, carriage
  return, space, no-break space.\<close>

definition is_space :: "char \<Rightarrow> bool" where
  "is_space c = ((of_char c :: nat) \<in> {9, 10, 11, 12, 13, 32, 160})"

text \<open>\<^verbatim>\<open>s.split(/\s+/)\<close>: the pieces between the maximal runs of white space; a run at
  the start or at the end leaves an empty piece there, and the empty string gives one
  empty piece.\<close>

fun split_ws :: "string \<Rightarrow> string list" where
  "split_ws [] = [[]]"
| "split_ws (c # cs) =
     (if is_space c
      then (if cs \<noteq> [] \<and> is_space (hd cs) then split_ws cs else [] # split_ws cs)
      else (case split_ws cs of [] \<Rightarrow> [[c]] | w # ws \<Rightarrow> (c # w) # ws))"

fun is_prefix :: "string \<Rightarrow> string \<Rightarrow> bool" where
  "is_prefix [] cs = True"
| "is_prefix (p # ps) [] = False"
| "is_prefix (p # ps) (c # cs) = (p = c \<and> is_prefix ps cs)"

text \<open>\<^verbatim>\<open>text.includes(pat)\<close>.\<close>

fun str_includes :: "string \<Rightarrow> string \<Rightarrow> bool" where
  "str_includes [] pat = (pat = [])"
| "str_includes (c # cs) pat = (is_prefix pat (c # cs) \<or> str_includes cs pat)"

subsection \<open>Regular expressions\<close>

text \<open>
  \<^verbatim>\<open>(lowerText.match(new RegExp(term, "g")) || []).length\<close> reads the term as a
  pattern. Three cases are told apart:
  \<^item> a pattern of ordinary characters and dots is matched position by position, the
    scan resuming after each match (a dot matches any character but a line terminator);
  \<^item> a pattern with an opening parenthesis and no closing one, no backslash and no
    bracket is an unterminated group: the constructor throws \<^verbatim>\<open>SyntaxError\<close>;
  \<^item> every other pattern is left to the engine, a parameter: it throws or gives the
    number of matches.
\<close>

type_synonym regexp_engine = "string \<Rightarrow> string \<Rightarrow> exn + nat"

definition plain_char :: "char \<Rightarrow> bool" where
  "plain_char c = (c \<notin> set [CHR ''^'', CHR ''$'', CHR 0x5C, CHR ''*'', CHR ''+'', CHR ''?'',
     CHR ''('', CHR '')'', CHR ''['', CHR '']'', CHR ''{'', CHR ''}'', CHR ''|''])"

definition plain_pattern :: "string \<Rightarrow> bool" where
  "plain_pattern p = list_all plain_char p"

definition unterminated_group :: "string \<Rightarrow> bool" where
  "unterminated_group p =
     (CHR ''('' \<in> set p \<and> CHR '')'' \<notin> set p \<and> CHR 0x5C \<notin> set p \<and> CHR ''['' \<notin> set p)"

definition elem_matches :: "char \<Rightarrow> char \<Rightarrow> bool" where
  "elem_matches p c = (if p = CHR ''.'' then c \<noteq> CHR 0x0A \<and> c \<noteq> CHR 0x0D else p = c)"

fun matches_at :: "string \<Rightarrow> string \<Rightarrow> bool" where
  "matches_at [] cs = True"
| "matches_at (p # ps) [] = False"
| "matches_at (p # ps) (c # cs) = (elem_matches p c \<and> matches_at ps cs)"

text \<open>The global scan: \<open>k\<close> characters of the last match are still to be stepped over.
  The empty pattern matches once more at the end of the text.\<close>

fun count_from :: "string \<Rightarrow> nat \<Rightarrow> string \<Rightarrow> nat" where
  "count_from p k [] = (if p = [] then 1 else 0)"
| "count_from p k (c # cs) =
     (if 0 < k then count_from p (k - 1) cs
      else if matches_at p (c # cs) then 1 + count_from p (length p - 1) cs
      else count_from p 0 cs)"

definition match_count :: "regexp_engine \<Rightarrow> string \<Rightarrow> string \<Rightarrow> exn + nat" where
  "match_count eng pattern subject =
     (if plain_pattern pattern then Inr (count_from pattern 0 subject)
      else if unterminated_group pattern then Inl SyntaxError
      else eng pattern subject)"

text \<open>An engine that rejects whatever it is asked: it closes the examples whose
  patterns are plain or unterminated groups, where no engine is consulted.\<close>

definition reject_engine :: regexp_engine where
  "reject_engine pattern subject = Inl SyntaxError"

section \<open>The relevance scorer\<close>

definition queryTerms :: "string \<Rightarrow> string list" where
  "queryTerms query = filter (\<lambda>term. 2 < length term) (split_ws (toLowerCase query))"

text \<open>The loop over the query terms, on the pair of \<^verbatim>\<open>score\<close> and
  \<^verbatim>\<open>matchedTerms\<close>; a throw of the pattern constructor ends it.\<close>

fun score_terms :: "regexp_engine \<Rightarrow> string \<Rightarrow> string list \<Rightarrow> int \<times> nat \<Rightarrow> exn + (int \<times> nat)" where
  "score_terms eng lowerText [] st = Inr st"
| "score_terms eng lowerText (t # ts) (score, matched) =
     (if str_includes lowerText t
      then (case match_count eng t lowerText of
              Inl e \<Rightarrow> Inl e
            | Inr occurrences \<Rightarrow>
                score_terms eng lowerText ts (score + min (int occurrences) 3, matched + 1))
      else score_terms eng lowerText ts (score, matched))"

definition calculateRelevanceScore :: "regexp_engine \<Rightarrow> string \<Rightarrow> string \<Rightarrow> exn + int" where
  "calculateRelevanceScore eng text query =
     (if text = [] \<or> query = [] then Inr 0
      else
        let lowerText = toLowerCase text;
            terms = queryTerms query
        in if terms = [] then Inr 0
           else
             let score = (if str_includes lowerText (toLowerCase query) then 10 else 0)
             in case score_terms eng lowerText terms (score, 0) of
                  Inl e \<Rightarrow> Inl e
                | Inr (score', matched) \<Rightarrow>
                    Inr (if matched = length terms then score' + 5 else score'))"

text \<open>The number of occurrences of a term in a text, read literally and counted from
  left to right without overlap: what the specification calls the occurrence count.\<close>

fun count_occurrences :: "string \<Rightarrow> nat \<Rightarrow> string \<Rightarrow> nat" where
  "count_occurrences t k [] = 0"
| "count_occurrences t k (c # cs) =
     (if 0 < k then count_occurrences t (k - 1) cs
      else if is_prefix t (c # cs) then 1 + count_occurrences t (length t - 1) cs
      else count_occurrences t 0 cs)"


subsection \<open>Values of unknown type\<close>

definition truthy :: "js \<Rightarrow> bool" where
  "truthy v =
     (case v of
        JUndefined \<Rightarrow> False
      | JNull \<Rightarrow> False
      | JBool b \<Rightarrow> b
      | JNum n \<Rightarrow> n \<noteq> 0
      | JStr s \<Rightarrow> s \<noteq> []
      | JArr xs \<Rightarrow> True
      | JObj kvs \<Rightarrow> True)"

definition nullish :: "js \<Rightarrow> bool" where
  "nullish v = (v = JUndefined \<or> v = JNull)"

text \<open>Reading a property of a value that is neither \<^verbatim>\<open>null\<close> nor
  \<^verbatim>\<open>undefined\<close>: the first binding of the key in an object, \<^verbatim>\<open>undefined\<close> on
  anything else (no property name of the source is a built-in of strings or arrays).\<close>

fun fld :: "js \<Rightarrow> string \<Rightarrow> js" where
  "fld (JObj kvs) k = (case map_of kvs k of None \<Rightarrow> JUndefined | Some v \<Rightarrow> v)"
| "fld v k = JUndefined"

text \<open>\<^verbatim>\<open>v.k\<close>, which throws on \<^verbatim>\<open>null\<close> and \<^verbatim>\<open>undefined\<close>, and \<^verbatim>\<open>v?.k\<close>,
  which does not.\<close>

definition get_prop :: "js \<Rightarrow> string \<Rightarrow> exn + js" where
  "get_prop v k = (if nullish v then Inl TypeError else Inr (fld v k))"

definition opt_prop :: "js \<Rightarrow> string \<Rightarrow> js" where
  "opt_prop v k = (if nullish v then JUndefined else fld v k)"

text \<open>\<^verbatim>\<open>a || b\<close>.\<close>

definition js_or :: "js \<Rightarrow> js \<Rightarrow> js" where
  "js_or a b = (if truthy a then a else b)"

definition bind :: "exn + 'a \<Rightarrow> ('a \<Rightarrow> exn + 'b) \<Rightarrow> exn + 'b" where
  "bind m f = (case m of Inl e \<Rightarrow> Inl e | Inr v \<Rightarrow> f v)"

text \<open>\<^verbatim>\<open>try { body } catch (error) { handler }\<close>.\<close>

definition try_catch :: "exn + 'a \<Rightarrow> (exn \<Rightarrow> exn + 'a) \<Rightarrow> exn + 'a" where
  "try_catch body handler = (case body of Inl e \<Rightarrow> handler e | Inr v \<Rightarrow> Inr v)"

text \<open>A callback applied to the elements in order; the first throw ends the loop.\<close>

fun mapM :: "('a \<Rightarrow> exn + 'b) \<Rightarrow> 'a list \<Rightarrow> exn + 'b list" where
  "mapM f [] = Inr []"
| "mapM f (x # xs) = bind (f x) (\<lambda>y. bind (mapM f xs) (\<lambda>ys. Inr (y # ys)))"

text \<open>\<^verbatim>\<open>v.map(f)\<close>: only an array has the method. \<^verbatim>\<open>v?.map(f)\<close> gives
  \<^verbatim>\<open>undefined\<close> on \<^verbatim>\<open>null\<close> and \<^verbatim>\<open>undefined\<close>.\<close>

definition array_map :: "(js \<Rightarrow> exn + js) \<Rightarrow> js \<Rightarrow> exn + js list" where
  "array_map f v = (case v of JArr xs \<Rightarrow> mapM f xs | _ \<Rightarrow> Inl TypeError)"

definition opt_array_map :: "(js \<Rightarrow> exn + js) \<Rightarrow> js \<Rightarrow> exn + js" where
  "opt_array_map f v =
     (if nullish v then Inr JUndefined else bind (array_map f v) (\<lambda>ys. Inr (JArr ys)))"

text \<open>\<^verbatim>\<open>for (const x of v)\<close>: the elements of an array, the characters of a string;
  nothing else in a payload can be iterated.\<close>

definition js_iter :: "js \<Rightarrow> exn + js list" where
  "js_iter v =
     (case v of
        JArr xs \<Rightarrow> Inr xs
      | JStr s \<Rightarrow> Inr (map (\<lambda>c. JStr [c]) s)
      | _ \<Rightarrow> Inl TypeError)"

subsection \<open>Scoring a bill and a document\<close>

text \<open>\<^verbatim>\<open>calculateRelevanceScore\<close> called on a truthy property: with a non-empty query
  it reaches \<^verbatim>\<open>text.toLowerCase()\<close>, which only a string has.\<close>

definition score_text :: "regexp_engine \<Rightarrow> js \<Rightarrow> string \<Rightarrow> exn + int" where
  "score_text eng v query =
     (case v of
        JStr t \<Rightarrow> calculateRelevanceScore eng t query
      | _ \<Rightarrow> if query = [] then Inr 0 else Inl TypeError)"

text \<open>\<^verbatim>\<open>if (v) score += calculateRelevanceScore(v, query) * w\<close>.\<close>

definition add_weighted :: "regexp_engine \<Rightarrow> js \<Rightarrow> string \<Rightarrow> rat \<Rightarrow> rat \<Rightarrow> exn + rat" where
  "add_weighted eng v query w score =
     (if truthy v
      then bind (score_text eng v query) (\<lambda>s. Inr (score + of_int s * w))
      else Inr score)"

definition subjectName :: "js \<Rightarrow> exn + string" where
  "subjectName subject =
     (case subject of
        JStr s \<Rightarrow> Inr (toLowerCase s)
      | _ \<Rightarrow>
          bind (get_prop subject ''name'') (\<lambda>name.
            case js_or name (JStr []) of
              JStr n \<Rightarrow> Inr (toLowerCase n)
            | _ \<Rightarrow> Inl TypeError))"

fun subjects_loop :: "string list \<Rightarrow> js list \<Rightarrow> rat \<Rightarrow> exn + rat" where
  "subjects_loop terms [] score = Inr score"
| "subjects_loop terms (subject # rest) score =
     bind (subjectName subject) (\<lambda>name.
       subjects_loop terms rest
         (if list_ex (\<lambda>term. str_includes name term) terms then score + 20 else score))"

definition scoreBillRelevance :: "regexp_engine \<Rightarrow> js \<Rightarrow> string \<Rightarrow> exn + rat" where
  "scoreBillRelevance eng bill query =
     (if nullish bill then Inl TypeError
      else
        bind (add_weighted eng (fld bill ''title'') query 4 0) (\<lambda>score.
        bind (add_weighted eng (fld bill ''shortTitle'') query 4 score) (\<lambda>score.
        bind (add_weighted eng (opt_prop (fld bill ''summary'') ''text'') query 2 score) (\<lambda>score.
        bind (add_weighted eng (opt_prop (fld bill ''latestAction'') ''text'') query (3 / 2) score)
          (\<lambda>score.
        if truthy (fld bill ''subjects'') \<and> queryTerms query \<noteq> []
        then bind (js_iter (fld bill ''subjects''))
               (\<lambda>subjects. subjects_loop (queryTerms query) subjects score)
        else Inr score)))))"

fun agencies_loop :: "string list \<Rightarrow> js list \<Rightarrow> rat \<Rightarrow> exn + rat" where
  "agencies_loop terms [] score = Inr score"
| "agencies_loop terms (agency # rest) score =
     (case agency of
        JStr a \<Rightarrow>
          agencies_loop terms rest
            (if list_ex (\<lambda>term. str_includes (toLowerCase a) term) terms
             then score + 10 else score)
      | _ \<Rightarrow> Inl TypeError)"

definition scoreDocumentRelevance :: "regexp_engine \<Rightarrow> js \<Rightarrow> string \<Rightarrow> exn + rat" where
  "scoreDocumentRelevance eng doc query =
     (if nullish doc then Inl TypeError
      else
        bind (add_weighted eng (fld doc ''title'') query 3 0) (\<lambda>score.
        bind (add_weighted eng (fld doc ''abstract'') query 2 score) (\<lambda>score.
        case fld doc ''agency_names'' of
          JArr agencies \<Rightarrow> agencies_loop (queryTerms query) agencies score
        | _ \<Rightarrow> Inr score)))"

text \<open>A subject tag matches a query when some retained query term is a substring of
  the lowercase tag.\<close>

definition tag_matches :: "string \<Rightarrow> string \<Rightarrow> bool" where
  "tag_matches query tag =
     list_ex (\<lambda>term. str_includes (toLowerCase tag) term) (queryTerms query)"


section \<open>Requests and responses\<close>

text \<open>\<^verbatim>\<open>Number.prototype.toString\<close> on the natural numbers and the integers.\<close>

function show_nat :: "nat \<Rightarrow> string" where
  "show_nat n =
     (if n < 10 then [''0123456789'' ! n]
      else show_nat (n div 10) @ [''0123456789'' ! (n mod 10)])"
  by pat_completeness auto
termination
  by (relation "measure id") auto

declare show_nat.simps [simp del]

definition show_int :: "int \<Rightarrow> string" where
  "show_int i = (if i < 0 then CHR ''-'' # show_nat (nat (- i)) else show_nat (nat i))"

record request =
  url :: string
  params :: "(string \<times> string) list"
  headers :: "(string \<times> string) list"
  timeout :: "nat option"

text \<open>What the upstream does with a request: no response at all (with the error code
  of the transport, as \<^verbatim>\<open>ETIMEDOUT\<close> or \<^verbatim>\<open>ECONNREFUSED\<close>), or a status and a body.\<close>

datatype upstream = Unreachable string | Reply nat js

type_synonym network = "request \<Rightarrow> upstream"

text \<open>\<^verbatim>\<open>axios.get\<close> throws when there is no response and when \<^verbatim>\<open>validateStatus\<close>
  refuses the status; by default it accepts 200 to 299.\<close>

definition default_validate :: "nat \<Rightarrow> bool" where
  "default_validate status = (200 \<le> status \<and> status < 300)"

definition axios_get :: "(nat \<Rightarrow> bool) \<Rightarrow> network \<Rightarrow> request \<Rightarrow> exn + (nat \<times> js)" where
  "axios_get validateStatus net req =
     (case net req of
        Unreachable code \<Rightarrow> Inl (AxiosError code None)
      | Reply status body \<Rightarrow>
          if validateStatus status then Inr (status, body)
          else Inl (AxiosError
                 (if status < 500 then ''ERR_BAD_REQUEST'' else ''ERR_BAD_RESPONSE'')
                 (Some status)))"

text \<open>\<^verbatim>\<open>...(v && { k: v })\<close> in the argument of \<^verbatim>\<open>URLSearchParams\<close>.\<close>

definition opt_param :: "string \<Rightarrow> string \<Rightarrow> (string \<times> string) list" where
  "opt_param k v = (if v \<noteq> [] then [(k, v)] else [])"

definition opt_num_param :: "string \<Rightarrow> nat option \<Rightarrow> (string \<times> string) list" where
  "opt_num_param k n =
     (case n of None \<Rightarrow> [] | Some m \<Rightarrow> if m \<noteq> 0 then [(k, show_nat m)] else [])"

definition CONGRESS :: string where
  "CONGRESS = ''https://api.congress.gov/v3''"

definition FEDERAL_REGISTER :: string where
  "FEDERAL_REGISTER = ''https://www.federalregister.gov/api/v1''"

definition US_CODE :: string where
  "US_CODE = ''https://uscode.house.gov/api''"

definition REGULATIONS_GOV :: string where
  "REGULATIONS_GOV = ''https://api.regulations.gov/v4''"

definition COURT_LISTENER :: string where
  "COURT_LISTENER = ''https://www.courtlistener.com/api/rest/v3''"

text \<open>A record built of properties copied under their own names.\<close>

definition copy_fields :: "js \<Rightarrow> string list \<Rightarrow> (string \<times> js) list" where
  "copy_fields v ks = map (\<lambda>k. (k, fld v k)) ks"

text \<open>\<^verbatim>\<open>response.data.key?.map(f) || []\<close>.\<close>

definition map_results :: "(js \<Rightarrow> exn + js) \<Rightarrow> js \<Rightarrow> string \<Rightarrow> exn + js list" where
  "map_results f data key =
     bind (get_prop data key) (\<lambda>raw. if nullish raw then Inr [] else array_map f raw)"

section \<open>The Congress adapter\<close>

definition normalizeSponsor :: "js \<Rightarrow> exn + js" where
  "normalizeSponsor s =
     (if nullish s then Inl TypeError
      else Inr (JObj (copy_fields s
             [''bioguideId'', ''firstName'', ''lastName'', ''party'', ''state''])))"

text \<open>The subject callback of \<^verbatim>\<open>searchBills\<close>, \<^verbatim>\<open>s.name || s\<close>, and the one of the
  two other bill methods, \<^verbatim>\<open>s.name\<close>.\<close>

definition subjectNameOrSelf :: "js \<Rightarrow> exn + js" where
  "subjectNameOrSelf s = bind (get_prop s ''name'') (\<lambda>name. Inr (js_or name s))"

definition subjectNameOnly :: "js \<Rightarrow> exn + js" where
  "subjectNameOnly s = get_prop s ''name''"

definition normalizeBill :: "(js \<Rightarrow> exn + js) \<Rightarrow> js \<Rightarrow> exn + js" where
  "normalizeBill subject bill =
     (if nullish bill then Inl TypeError
      else
        bind (opt_array_map subject (fld bill ''subjects'')) (\<lambda>subjects.
        bind (opt_array_map normalizeSponsor (fld bill ''sponsors'')) (\<lambda>sponsors.
        Inr (JObj
          [(''congress'', fld bill ''congress''),
           (''type'', fld bill ''type''),
           (''number'', fld bill ''number''),
           (''title'', fld bill ''title''),
           (''shortTitle'', fld bill ''shortTitle''),
           (''summary'', opt_prop (fld bill ''summary'') ''text''),
           (''url'', fld bill ''url''),
           (''introducedDate'', fld bill ''introducedDate''),
           (''latestAction'',
              if truthy (fld bill ''latestAction'')
              then JObj (copy_fields (fld bill ''latestAction'') [''actionDate'', ''text''])
              else JUndefined),
           (''subjects'', subjects),
           (''sponsors'', sponsors)]))))"

text \<open>The debugging line of \<^verbatim>\<open>searchBills\<close> prints \<^verbatim>\<open>b.title.substring(0, 40)\<close> of the
  first five scored bills: it throws unless each of these titles is a string.\<close>

definition log_top_titles :: "(rat \<times> js) list \<Rightarrow> exn + unit" where
  "log_top_titles scored =
     (if list_all (\<lambda>(s, b). case fld b ''title'' of JStr t \<Rightarrow> True | _ \<Rightarrow> False) (take 5 scored)
      then Inr () else Inl TypeError)"

text \<open>Scoring, the stable sort by descending score, and the relevance floor. A scored
  bill \<^verbatim>\<open>{...bill, relevanceScore}\<close> is the pair of the score and the bill, and
  stripping the score is the second projection.\<close>

definition rankBills :: "regexp_engine \<Rightarrow> string \<Rightarrow> nat \<Rightarrow> js list \<Rightarrow> exn + js list" where
  "rankBills eng query limit bills =
     bind (mapM (\<lambda>bill. bind (scoreBillRelevance eng bill query) (\<lambda>s. Inr (s, bill))) bills)
       (\<lambda>scored.
     let scoredBills = sort_key (\<lambda>(s, b). - s) scored in
     bind (if scoredBills \<noteq> [] then log_top_titles scoredBills else Inr ()) (\<lambda>u.
     let highRelevanceBills = filter (\<lambda>(s, b). 5 \<le> s) scoredBills in
     if limit \<le> length highRelevanceBills
     then Inr (map snd (take limit highRelevanceBills))
     else if scoredBills \<noteq> [] then Inr (map snd (take limit scoredBills))
     else Inr []))"

definition searchBills ::
  "regexp_engine \<Rightarrow> string \<Rightarrow> string \<Rightarrow> nat option \<Rightarrow> nat \<Rightarrow> network \<Rightarrow> exn + js list" where
  "searchBills eng apiKey query congress limit net =
     try_catch
       (bind (axios_get default_validate net
                \<lparr>url = CONGRESS @ ''/bill'',
                 params = [(''q'', query), (''limit'', show_nat (min (limit * 5) 250)),
                           (''format'', ''json'')]
                          @ opt_param ''api_key'' apiKey @ opt_num_param ''congress'' congress,
                 headers = [], timeout = None\<rparr>) (\<lambda>(status, data).
        bind (get_prop data ''bills'') (\<lambda>raw.
        bind (array_map (normalizeBill subjectNameOrSelf) (js_or raw (JArr []))) (\<lambda>bills.
        rankBills eng query limit bills))))
       (\<lambda>error. Inr [])"

definition getBillDetails ::
  "string \<Rightarrow> nat \<Rightarrow> string \<Rightarrow> nat \<Rightarrow> network \<Rightarrow> exn + js" where
  "getBillDetails apiKey congress billType billNumber net =
     try_catch
       (bind (axios_get default_validate net
                \<lparr>url = CONGRESS @ ''/bill/'' @ show_nat congress @ ''/'' @ billType @ ''/''
                       @ show_nat billNumber,
                 params = [(''format'', ''json'')] @ opt_param ''api_key'' apiKey,
                 headers = [], timeout = None\<rparr>) (\<lambda>(status, data).
        bind (get_prop data ''bill'') (\<lambda>bill. normalizeBill subjectNameOnly bill)))
       (\<lambda>error. Inr JNull)"

definition getRecentBills :: "string \<Rightarrow> nat option \<Rightarrow> nat \<Rightarrow> network \<Rightarrow> exn + js list" where
  "getRecentBills apiKey congress limit net =
     try_catch
       (bind (axios_get default_validate net
                \<lparr>url = CONGRESS @ ''/bill'',
                 params = [(''limit'', show_nat limit), (''format'', ''json'')]
                          @ opt_param ''api_key'' apiKey @ opt_num_param ''congress'' congress,
                 headers = [], timeout = None\<rparr>) (\<lambda>(status, data).
        map_results (normalizeBill subjectNameOnly) data ''bills''))
       (\<lambda>error. Inr [])"

definition normalizeMember :: "js \<Rightarrow> exn + js" where
  "normalizeMember m =
     (if nullish m then Inl TypeError
      else Inr (JObj
        [(''member'', JObj (map (\<lambda>k. (k, opt_prop (fld m ''member'') k))
            [''bioguideId'', ''firstName'', ''lastName'', ''party'', ''state''])),
         (''votePosition'', fld m ''votePosition'')]))"

definition normalizeVote :: "js \<Rightarrow> exn + js" where
  "normalizeVote vote =
     (if nullish vote then Inl TypeError
      else
        bind (opt_array_map normalizeMember (fld vote ''members'')) (\<lambda>members.
        Inr (JObj (copy_fields vote
               [''rollNumber'', ''url'', ''voteDate'', ''voteQuestion'', ''voteResult'',
                ''voteTitle'', ''voteType'', ''chamber'', ''congress'', ''session'']
             @ [(''members'', members)]))))"

definition searchVotes ::
  "string \<Rightarrow> nat option \<Rightarrow> string \<Rightarrow> nat \<Rightarrow> network \<Rightarrow> exn + js list" where
  "searchVotes apiKey congress chamber limit net =
     try_catch
       (bind (axios_get default_validate net
                \<lparr>url = CONGRESS @ ''/vote'',
                 params = [(''limit'', show_nat limit), (''format'', ''json'')]
                          @ opt_param ''api_key'' apiKey @ opt_num_param ''congress'' congress
                          @ opt_param ''chamber'' chamber,
                 headers = [], timeout = None\<rparr>) (\<lambda>(status, data).
        map_results normalizeVote data ''votes''))
       (\<lambda>error. Inr [])"

definition normalizeSubcommittee :: "js \<Rightarrow> exn + js" where
  "normalizeSubcommittee sub =
     (if nullish sub then Inl TypeError
      else Inr (JObj (copy_fields sub [''systemCode'', ''name'', ''url''])))"

definition normalizeCommittee :: "js \<Rightarrow> exn + js" where
  "normalizeCommittee committee =
     (if nullish committee then Inl TypeError
      else
        bind (opt_array_map normalizeSubcommittee (fld committee ''subcommittees''))
          (\<lambda>subcommittees.
        Inr (JObj (copy_fields committee
               [''systemCode'', ''name'', ''url'', ''chamber'', ''committeeType'']
             @ [(''subcommittees'', subcommittees)]))))"

definition getCommittees :: "string \<Rightarrow> nat option \<Rightarrow> string \<Rightarrow> network \<Rightarrow> exn + js list" where
  "getCommittees apiKey congress chamber net =
     try_catch
       (bind (axios_get default_validate net
                \<lparr>url = CONGRESS @ ''/committee'',
                 params = [(''format'', ''json'')]
                          @ opt_param ''api_key'' apiKey @ opt_num_param ''congress'' congress
                          @ opt_param ''chamber'' chamber,
                 headers = [], timeout = None\<rparr>) (\<lambda>(status, data).
        map_results normalizeCommittee data ''committees''))
       (\<lambda>error. Inr [])"


section \<open>The Federal Register adapter\<close>

definition normalizeDocument :: "js \<Rightarrow> exn + js" where
  "normalizeDocument doc =
     (if nullish doc then Inl TypeError
      else Inr (JObj (copy_fields doc
             [''document_number'', ''title'', ''abstract'', ''publication_date'',
              ''effective_date'', ''agency_names'', ''document_type'', ''pdf_url'',
              ''html_url'', ''json_url''])))"

definition rankDocuments :: "regexp_engine \<Rightarrow> string \<Rightarrow> nat \<Rightarrow> js list \<Rightarrow> exn + js list" where
  "rankDocuments eng query limit documents =
     bind (mapM (\<lambda>doc. bind (scoreDocumentRelevance eng doc query) (\<lambda>s. Inr (s, doc)))
             documents) (\<lambda>scored.
     let scoredDocs = sort_key (\<lambda>(s, d). - s) scored;
         relevantDocs = map snd (take limit (filter (\<lambda>(s, d). 5 \<le> s) scoredDocs))
     in if length relevantDocs < limit \<and> scoredDocs \<noteq> []
        then Inr (map snd (take limit scoredDocs))
        else Inr relevantDocs)"

definition searchDocuments ::
  "regexp_engine \<Rightarrow> string \<Rightarrow> nat \<Rightarrow> network \<Rightarrow> exn + js list" where
  "searchDocuments eng query limit net =
     try_catch
       (bind (axios_get default_validate net
                \<lparr>url = FEDERAL_REGISTER @ ''/documents'',
                 params = [(''q'', query), (''per_page'', show_nat (min (limit * 3) 100)),
                           (''order'', ''relevance'')],
                 headers = [], timeout = None\<rparr>) (\<lambda>(status, data).
        bind (get_prop data ''results'') (\<lambda>raw.
        bind (array_map normalizeDocument (js_or raw (JArr []))) (\<lambda>documents.
        rankDocuments eng query limit documents))))
       (\<lambda>error. Inr [])"

definition getRecentDocuments :: "nat \<Rightarrow> network \<Rightarrow> exn + js list" where
  "getRecentDocuments limit net =
     try_catch
       (bind (axios_get default_validate net
                \<lparr>url = FEDERAL_REGISTER @ ''/documents'',
                 params = [(''per_page'', show_nat limit), (''order'', ''newest'')],
                 headers = [], timeout = None\<rparr>) (\<lambda>(status, data).
        map_results normalizeDocument data ''results''))
       (\<lambda>error. Inr [])"

definition normalizeDocSection :: "js \<Rightarrow> exn + js" where
  "normalizeDocSection s =
     (if nullish s then Inl TypeError
      else Inr (JObj (copy_fields s [''title'', ''content''])))"

text \<open>The record of \<^verbatim>\<open>getDocumentDetails\<close>, which has the sections as well.\<close>

definition normalizeDocumentDetails :: "js \<Rightarrow> exn + js" where
  "normalizeDocumentDetails doc =
     (if nullish doc then Inl TypeError
      else
        bind (opt_array_map normalizeDocSection (fld doc ''sections'')) (\<lambda>sections.
        Inr (JObj (copy_fields doc
               [''document_number'', ''title'', ''abstract'', ''publication_date'',
                ''effective_date'', ''agency_names'', ''document_type'', ''pdf_url'',
                ''html_url'', ''json_url'']
             @ [(''sections'', sections)]))))"

definition getDocumentDetails :: "string \<Rightarrow> network \<Rightarrow> exn + js" where
  "getDocumentDetails documentNumber net =
     try_catch
       (bind (axios_get default_validate net
                \<lparr>url = FEDERAL_REGISTER @ ''/documents/'' @ documentNumber @ ''.json'',
                 params = [], headers = [], timeout = None\<rparr>) (\<lambda>(status, doc).
        normalizeDocumentDetails doc))
       (\<lambda>error. Inr JNull)"

section \<open>The US Code adapter\<close>

definition normalizeCodeSection :: "js \<Rightarrow> exn + js" where
  "normalizeCodeSection section =
     (if nullish section then Inl TypeError
      else Inr (JObj (copy_fields section
             [''title'', ''section'', ''text'', ''url'', ''last_updated'', ''source''])))"

text \<open>\<^verbatim>\<open>searchCode\<close> asks axios not to throw below status 500 and looks at the status
  itself.\<close>

definition searchCode :: "string \<Rightarrow> nat option \<Rightarrow> nat \<Rightarrow> network \<Rightarrow> exn + js list" where
  "searchCode query title limit net =
     try_catch
       (bind (axios_get (\<lambda>status. status < 500) net
                \<lparr>url = US_CODE @ ''/search'',
                 params = [(''q'', query), (''limit'', show_nat limit)]
                          @ opt_num_param ''title'' title,
                 headers = [], timeout = Some 30000\<rparr>) (\<lambda>(status, data).
        if 400 \<le> status then Inr []
        else map_results normalizeCodeSection data ''results''))
       (\<lambda>error. Inr [])"

definition getSection :: "nat \<Rightarrow> string \<Rightarrow> network \<Rightarrow> exn + js" where
  "getSection title section net =
     try_catch
       (bind (axios_get default_validate net
                \<lparr>url = US_CODE @ ''/title/'' @ show_nat title @ ''/section/'' @ section,
                 params = [], headers = [], timeout = None\<rparr>) (\<lambda>(status, data).
        normalizeCodeSection data))
       (\<lambda>error. Inr JNull)"

section \<open>The CourtListener adapter\<close>

text \<open>The text of a value inside a template literal; the elements of an array are
  joined by commas, \<^verbatim>\<open>null\<close> and \<^verbatim>\<open>undefined\<close> among them as empty strings.\<close>

fun join_comma :: "string list \<Rightarrow> string" where
  "join_comma [] = []"
| "join_comma [s] = s"
| "join_comma (s # t # ss) = s @ '','' @ join_comma (t # ss)"

text \<open>
  \<^verbatim>\<open>Number.prototype.toString\<close>. An integer below \<open>2 ^ 53\<close> in magnitude is printed
  with all its digits. Every other number (a fraction, or an integer from \<open>2 ^ 53\<close>
  on, which is printed rounded and, from \<open>10 ^ 21\<close> on, with an exponent) is left to
  the format, a parameter.
\<close>

type_synonym number_format = "rat \<Rightarrow> string"

definition number_to_string :: "number_format \<Rightarrow> rat \<Rightarrow> string" where
  "number_to_string fmt x =
     (if of_int \<lfloor>x\<rfloor> = x \<and> \<bar>x\<bar> < 2 ^ 53 then show_int \<lfloor>x\<rfloor> else fmt x)"


fun js_to_string :: "number_format \<Rightarrow> js \<Rightarrow> string" where
  "js_to_string fmt JUndefined = ''undefined''"
| "js_to_string fmt JNull = ''null''"
| "js_to_string fmt (JBool b) = (if b then ''true'' else ''false'')"
| "js_to_string fmt (JNum x) = number_to_string fmt x"
| "js_to_string fmt (JStr s) = s"
| "js_to_string fmt (JArr xs) =
     join_comma (map (\<lambda>x. if x = JUndefined \<or> x = JNull then [] else js_to_string fmt x) xs)"
| "js_to_string fmt (JObj kvs) = ''[object Object]''"

text \<open>The callback of \<^verbatim>\<open>searchOpinions\<close> and \<^verbatim>\<open>getRecentOpinions\<close>.\<close>

definition normalizeOpinion :: "number_format \<Rightarrow> js \<Rightarrow> exn + js" where
  "normalizeOpinion fmt opinion =
     (if nullish opinion then Inl TypeError
      else
        let absoluteUrl =
              js_or (fld opinion ''absoluteUrl'')
                (js_or (fld opinion ''absolute_url'')
                   (if truthy (fld opinion ''id'')
                    then JStr (''https://www.courtlistener.com/opinion/''
                               @ js_to_string fmt (fld opinion ''id'') @ ''/'')
                    else JUndefined))
        in Inr (JObj
          [(''id'', fld opinion ''id''),
           (''case_name'', js_or (fld opinion ''caseName'') (fld opinion ''case_name'')),
           (''case_name_full'',
              js_or (fld opinion ''caseNameFull'') (fld opinion ''case_name_full'')),
           (''date_filed'', js_or (fld opinion ''dateFiled'') (fld opinion ''date_filed'')),
           (''date_modified'',
              js_or (fld opinion ''dateModified'') (fld opinion ''date_modified'')),
           (''court'', js_or (fld opinion ''court'') (fld opinion ''court_name'')),
           (''court_id'', js_or (fld opinion ''courtId'') (fld opinion ''court_id'')),
           (''jurisdiction'', fld opinion ''jurisdiction''),
           (''citation'', fld opinion ''citation''),
           (''citation_count'',
              js_or (fld opinion ''citationCount'') (fld opinion ''citation_count'')),
           (''precedential_status'',
              js_or (fld opinion ''precedentialStatus'') (fld opinion ''precedential_status'')),
           (''url'', absoluteUrl),
           (''absolute_url'', absoluteUrl),
           (''download_url'', js_or (fld opinion ''downloadUrl'') (fld opinion ''download_url'')),
           (''plain_text'', js_or (fld opinion ''plainText'') (fld opinion ''plain_text'')),
           (''html'', fld opinion ''html''),
           (''html_lawbox'', js_or (fld opinion ''htmlLawbox'') (fld opinion ''html_lawbox'')),
           (''html_columbia'',
              js_or (fld opinion ''htmlColumbia'') (fld opinion ''html_columbia'')),
           (''html_anon_2020'',
              js_or (fld opinion ''htmlAnon2020'') (fld opinion ''html_anon_2020'')),
           (''judges'', fld opinion ''judges''),
           (''docket'', fld opinion ''docket''),
           (''docket_number'',
              js_or (fld opinion ''docketNumber'') (fld opinion ''docket_number'')),
           (''slug'', fld opinion ''slug'')]))"

text \<open>The record of \<^verbatim>\<open>getOpinion\<close> reads the first naming convention only.\<close>

definition normalizeOpinionDetail :: "js \<Rightarrow> exn + js" where
  "normalizeOpinionDetail opinion =
     (if nullish opinion then Inl TypeError
      else Inr (JObj
        [(''id'', fld opinion ''id''),
         (''case_name'', fld opinion ''caseName''),
         (''case_name_full'', fld opinion ''caseNameFull''),
         (''date_filed'', fld opinion ''dateFiled''),
         (''date_modified'', fld opinion ''dateModified''),
         (''court'', fld opinion ''court''),
         (''court_id'', fld opinion ''courtId''),
         (''jurisdiction'', fld opinion ''jurisdiction''),
         (''citation'', fld opinion ''citation''),
         (''citation_count'', fld opinion ''citationCount''),
         (''precedential_status'', fld opinion ''precedentialStatus''),
         (''url'', fld opinion ''absoluteUrl''),
         (''absolute_url'', fld opinion ''absoluteUrl''),
         (''download_url'', fld opinion ''downloadUrl''),
         (''plain_text'', fld opinion ''plainText''),
         (''html'', fld opinion ''html''),
         (''html_lawbox'', fld opinion ''htmlLawbox''),
         (''html_columbia'', fld opinion ''htmlColumbia''),
         (''html_anon_2020'', fld opinion ''htmlAnon2020''),
         (''judges'', fld opinion ''judges''),
         (''docket'', fld opinion ''docket''),
         (''docket_number'', fld opinion ''docketNumber''),
         (''slug'', fld opinion ''slug'')]))"

definition auth_header :: "string \<Rightarrow> (string \<times> string) list" where
  "auth_header apiKey = (if apiKey \<noteq> [] then [(''Authorization'', ''Token '' @ apiKey)] else [])"

definition searchOpinions ::
  "number_format \<Rightarrow> string \<Rightarrow> string \<Rightarrow> string \<Rightarrow> nat \<Rightarrow> network \<Rightarrow> exn + js list" where
  "searchOpinions fmt apiKey query court limit net =
     try_catch
       (bind (axios_get default_validate net
                \<lparr>url = COURT_LISTENER @ ''/search/'',
                 params = [(''q'', query), (''type'', ''o''), (''page_size'', show_nat limit),
                           (''ordering'', ''-date_filed'')] @ opt_param ''court'' court,
                 headers = [(''Accept'', ''application/json'')] @ auth_header apiKey,
                 timeout = None\<rparr>) (\<lambda>(status, data).
        map_results (normalizeOpinion fmt) data ''results''))
       (\<lambda>error. Inr [])"

definition getRecentOpinions ::
  "number_format \<Rightarrow> string \<Rightarrow> string \<Rightarrow> nat \<Rightarrow> network \<Rightarrow> exn + js list" where
  "getRecentOpinions fmt apiKey court limit net =
     try_catch
       (bind (axios_get default_validate net
                \<lparr>url = COURT_LISTENER @ ''/search/'',
                 params = [(''type'', ''o''), (''page_size'', show_nat limit),
                           (''ordering'', ''-date_filed'')] @ opt_param ''court'' court,
                 headers = [(''Accept'', ''application/json'')] @ auth_header apiKey,
                 timeout = None\<rparr>) (\<lambda>(status, data).
        map_results (normalizeOpinion fmt) data ''results''))
       (\<lambda>error. Inr [])"

definition getOpinion :: "string \<Rightarrow> nat \<Rightarrow> network \<Rightarrow> exn + js" where
  "getOpinion apiKey opinionId net =
     try_catch
       (bind (axios_get default_validate net
                \<lparr>url = COURT_LISTENER @ ''/search/'' @ show_nat opinionId @ ''/'',
                 params = [], headers = auth_header apiKey, timeout = None\<rparr>)
          (\<lambda>(status, opinion). normalizeOpinionDetail opinion))
       (\<lambda>error. Inr JNull)"

section \<open>The Regulations.gov adapter\<close>

definition normalizeComment :: "js \<Rightarrow> exn + js" where
  "normalizeComment comment =
     bind (get_prop comment ''attributes'') (\<lambda>attributes.
       if nullish attributes then Inl TypeError
       else Inr (JObj
         [(''id'', fld comment ''id''),
          (''comment'', fld attributes ''comment''),
          (''posted_date'', fld attributes ''postedDate''),
          (''agency_id'', fld attributes ''agencyId''),
          (''document_id'', fld attributes ''documentId''),
          (''submitter_name'', fld attributes ''submitterName''),
          (''organization'', fld attributes ''organization'')]))"

definition searchComments :: "string \<Rightarrow> string \<Rightarrow> nat \<Rightarrow> network \<Rightarrow> exn + js list" where
  "searchComments apiKey query limit net =
     try_catch
       (bind (axios_get default_validate net
                \<lparr>url = REGULATIONS_GOV @ ''/comments'',
                 params = [(''q'', query), (''page[size]'', show_nat limit),
                           (''sort'', ''-postedDate'')] @ opt_param ''api_key'' apiKey,
                 headers = [], timeout = None\<rparr>) (\<lambda>(status, data).
        map_results normalizeComment data ''data''))
       (\<lambda>error. Inr [])"

section \<open>The aggregate search\<close>

record api_keys =
  congress_key :: string
  regulations_key :: string
  court_key :: string

text \<open>\<^verbatim>\<open>Math.ceil(limit / 4)\<close>.\<close>

definition ceil_quarter :: "nat \<Rightarrow> nat" where
  "ceil_quarter limit = nat \<lceil>(of_nat limit :: rat) / 4\<rceil>"

text \<open>\<^verbatim>\<open>Promise.all\<close> of the four searches: the first rejection, if there were one,
  would reject the whole.\<close>

definition searchAll :: "regexp_engine \<Rightarrow> api_keys \<Rightarrow> string \<Rightarrow> nat \<Rightarrow> network \<Rightarrow> exn + js" where
  "searchAll eng keys query limit net =
     bind (searchBills eng (congress_key keys) query None (ceil_quarter limit) net) (\<lambda>bills.
     bind (searchDocuments eng query (ceil_quarter limit) net) (\<lambda>regulations.
     bind (searchCode query None (ceil_quarter limit) net) (\<lambda>codeSections.
     bind (searchComments (regulations_key keys) query (ceil_quarter limit) net) (\<lambda>comments.
     Inr (JObj [(''bills'', JArr bills), (''regulations'', JArr regulations),
                (''codeSections'', JArr codeSections), (''comments'', JArr comments)])))))"


section \<open>Notions of the specification\<close>

text \<open>A request has failed when no response arrived or axios refuses the status;
  for \<^verbatim>\<open>searchCode\<close>, which accepts every status below 500 and then gives up from 400
  on, when no response arrived or the status is 400 or more.\<close>

fun request_failed :: "upstream \<Rightarrow> bool" where
  "request_failed (Unreachable code) = True"
| "request_failed (Reply status body) = (\<not> default_validate status)"

fun code_request_failed :: "upstream \<Rightarrow> bool" where
  "code_request_failed (Unreachable code) = True"
| "code_request_failed (Reply status body) = (400 \<le> status)"






text \<open>The values a serialized record shows: its strings, numbers, booleans and nulls,
  at any depth. A property that is \<^verbatim>\<open>undefined\<close> is not serialized.\<close>

fun leaves :: "js \<Rightarrow> js set" where
  "leaves JUndefined = {}"
| "leaves (JArr xs) = \<Union> (set (map leaves xs))"
| "leaves (JObj kvs) = \<Union> (set (map (\<lambda>kv. leaves (snd kv)) kvs))"
| "leaves v = {v}"





















section \<open>Evaluation\<close>

lemmas string_defs = toLowerCase_def toLowerChar_def is_space_def queryTerms_def

lemmas regexp_defs = match_count_def plain_pattern_def plain_char_def elem_matches_def
  unterminated_group_def

lemmas js_defs = truthy_def nullish_def get_prop_def opt_prop_def js_or_def bind_def
  try_catch_def array_map_def opt_array_map_def js_iter_def copy_fields_def map_results_def

lemmas scorer_defs = calculateRelevanceScore_def score_text_def add_weighted_def
  subjectName_def scoreBillRelevance_def scoreDocumentRelevance_def

lemmas ranking_defs = axios_get_def default_validate_def normalizeBill_def
  normalizeSponsor_def subjectNameOrSelf_def log_top_titles_def rankBills_def searchBills_def
  normalizeDocument_def rankDocuments_def searchDocuments_def

section \<open>The scorer\<close>

lemma score_terms_mono:
  "score_terms eng lt ts (sc, m) = Inr (sc', m') \<Longrightarrow> sc \<le> sc'"
proof (induction ts arbitrary: sc m)
  case Nil
  then show ?case by simp
next
  case (Cons t ts)
  show ?case
  proof (cases "str_includes lt t")
    case True
    with Cons.prems obtain occ where occ: "match_count eng t lt = Inr occ"
      and rest: "score_terms eng lt ts (sc + min (int occ) 3, m + 1) = Inr (sc', m')"
      by (auto split: sum.splits)
    from Cons.IH [OF rest] show ?thesis by simp
  next
    case False
    with Cons.prems have "score_terms eng lt ts (sc, m) = Inr (sc', m')" by simp
    from Cons.IH [OF this] show ?thesis .
  qed
qed

lemma score_terms_plain:
  "\<forall>t\<in>set ts. plain_pattern t \<Longrightarrow> \<exists>r. score_terms eng lt ts st = Inr r"
proof (induction ts arbitrary: st)
  case Nil
  then show ?case by simp
next
  case (Cons t ts)
  obtain sc m where st: "st = (sc, m)" by (cases st)
  from Cons.prems have "plain_pattern t" and rest: "\<forall>t\<in>set ts. plain_pattern t" by simp_all
  then show ?case using Cons.IH [OF rest] by (simp add: st match_count_def)
qed

lemma queryTerms_Nil: "queryTerms [] = []"
  by (simp add: queryTerms_def toLowerCase_def)

text \<open>Whenever the scorer returns, the score is not negative; it returns 0 on an empty
  text, on an empty query, and on a query without a term of more than two characters.\<close>

lemma calculateRelevanceScore_nonneg:
  "calculateRelevanceScore eng text query = Inr s \<Longrightarrow> 0 \<le> s"
  by (auto simp add: calculateRelevanceScore_def Let_def dest!: score_terms_mono
           split: if_splits sum.splits prod.splits)

lemma calculateRelevanceScore_zero:
  "text = [] \<or> query = [] \<or> queryTerms query = []
   \<Longrightarrow> calculateRelevanceScore eng text query = Inr 0"
  by (auto simp add: calculateRelevanceScore_def Let_def)

text \<open>On a term without pattern syntax the engine counts the occurrences of the term.\<close>

lemma matches_at_literal:
  "CHR ''.'' \<notin> set p \<Longrightarrow> matches_at p cs = is_prefix p cs"
  by (induction p cs rule: matches_at.induct) (auto simp add: elem_matches_def)

lemma count_from_literal:
  "p \<noteq> [] \<Longrightarrow> CHR ''.'' \<notin> set p \<Longrightarrow> count_from p k cs = count_occurrences p k cs"
  by (induction cs arbitrary: k) (simp_all add: matches_at_literal)

lemma match_count_literal:
  "t \<noteq> [] \<Longrightarrow> plain_pattern t \<Longrightarrow> CHR ''.'' \<notin> set t
   \<Longrightarrow> match_count eng t s = Inr (count_occurrences t 0 s)"
  by (simp add: match_count_def count_from_literal)

text \<open>
  Claim C4, as amended. When the lowercase text contains the lowercase query and the
  query has at least one term of more than two characters, every score the scorer
  returns is at least 10; and it does return one when every such term is a plain
  pattern.
\<close>

theorem score_exact_match_bonus:
  assumes terms: "queryTerms query \<noteq> []"
    and incl: "str_includes (toLowerCase text) (toLowerCase query)"
  shows "(\<forall>s. calculateRelevanceScore eng text query = Inr s \<longrightarrow> 10 \<le> s)
       \<and> ((\<forall>t\<in>set (queryTerms query). plain_pattern t)
            \<longrightarrow> (\<exists>s. calculateRelevanceScore eng text query = Inr s))"
proof -
  from terms have q: "query \<noteq> []" using queryTerms_Nil by auto
  with incl have t: "text \<noteq> []" by (auto simp add: toLowerCase_def)
  have 1: "10 \<le> s" if "calculateRelevanceScore eng text query = Inr s" for s
    using that q t terms incl
    by (auto simp add: calculateRelevanceScore_def Let_def dest!: score_terms_mono
             split: sum.splits prod.splits if_splits)
  have 2: "\<exists>s. calculateRelevanceScore eng text query = Inr s"
    if "\<forall>t\<in>set (queryTerms query). plain_pattern t"
  proof -
    from score_terms_plain [OF that] obtain r
      where "score_terms eng (toLowerCase text) (queryTerms query)
               (if str_includes (toLowerCase text) (toLowerCase query) then 10 else 0, 0) = Inr r"
      by blast
    then show ?thesis using q t terms
      by (cases r) (simp add: calculateRelevanceScore_def Let_def)
  qed
  from 1 2 show ?thesis by blast
qed

text \<open>The amended claim C4 at the text "Clean Air Act" and the query "clean air".\<close>

theorem score_exact_match_bonus_witness:
  "queryTerms ''clean air'' \<noteq> []
   \<and> str_includes (toLowerCase ''Clean Air Act'') (toLowerCase ''clean air'')
   \<and> list_all plain_pattern (queryTerms ''clean air'')
   \<and> calculateRelevanceScore reject_engine ''Clean Air Act'' ''clean air'' = Inr 17
   \<and> (10::int) \<le> 17"
proof -
  have a: "queryTerms ''clean air'' \<noteq> []"
    by (simp add: string_defs)
  have b: "str_includes (toLowerCase ''Clean Air Act'') (toLowerCase ''clean air'')"
    by (simp add: string_defs)
  have c: "\<forall>t\<in>set (queryTerms ''clean air''). plain_pattern t"
    by (simp add: string_defs regexp_defs)
  have d: "calculateRelevanceScore reject_engine ''Clean Air Act'' ''clean air'' = Inr 17"
    by (simp add: string_defs regexp_defs scorer_defs)
  from score_exact_match_bonus [OF a b, of reject_engine] c d show ?thesis
    using a b by (simp add: list_all_iff)
qed

text \<open>Claim C4 as stated fails: the text "ab" contains the query "ab", whose only term
  is too short to be kept, and the score is 0.\<close>

theorem score_short_query_counterexample:
  "str_includes (toLowerCase ''ab'') (toLowerCase ''ab'')
   \<and> calculateRelevanceScore reject_engine ''ab'' ''ab'' = Inr 0"
  by (simp add: string_defs regexp_defs scorer_defs)

text \<open>
  Claim C5. The score should be a number that is not negative, for every text and
  query. At the text "Act (draft" and the query "(draft" the term is an unterminated
  group: the pattern constructor throws and no number is returned.
\<close>

theorem score_throws_on_unterminated_group:
  "calculateRelevanceScore eng ''Act (draft'' ''(draft'' = Inl SyntaxError"
  by (simp add: string_defs regexp_defs scorer_defs)

text \<open>
  Claim C6. A term present in the text should add the smaller of its occurrence count
  and 3. The term "a.c" occurs once in "a.c abc", but as a pattern it matches twice:
  it adds 2, and the score is 10 + 2 + 5.
\<close>

theorem score_counts_pattern_matches:
  "match_count eng ''a.c'' ''a.c abc'' = Inr 2
   \<and> count_occurrences ''a.c'' 0 ''a.c abc'' = 1
   \<and> calculateRelevanceScore eng ''a.c abc'' ''a.c'' = Inr 17"
  by (simp add: string_defs regexp_defs scorer_defs)

lemma subjects_loop_tags:
  "subjects_loop (queryTerms q) (map JStr tags) s
   = Inr (s + 20 * of_nat (length (filter (tag_matches q) tags)))"
  by (induction tags arbitrary: s) (simp_all add: subjectName_def bind_def tag_matches_def)

text \<open>Whenever scoring a bill returns, each subject tag that contains a retained query
  term has added 20, once per tag: two bills that differ in their subject tags only
  differ in score by 20 times the difference of their numbers of matching tags. So at
  the bill "Clean Air Act" and the query "clean air": 68 with the tag "Water", 88 with
  the tag "Air quality".\<close>

lemma subject_tags_add_twenty:
  assumes "scoreBillRelevance eng (JObj ((''subjects'', JArr (map JStr tags0)) # fs)) q = Inr s0"
  shows "scoreBillRelevance eng (JObj ((''subjects'', JArr (map JStr tags)) # fs)) q
           = Inr (s0 - 20 * of_nat (length (filter (tag_matches q) tags0))
                     + 20 * of_nat (length (filter (tag_matches q) tags)))"
  using assms
  by (auto simp add: scoreBillRelevance_def nullish_def bind_def truthy_def js_iter_def
        subjects_loop_tags tag_matches_def split: sum.splits)

lemma subject_tags_add_twenty_example:
  "scoreBillRelevance reject_engine
     (JObj [(''subjects'', JArr (map JStr [''Water''])), (''title'', JStr ''Clean Air Act'')])
     ''clean air'' = Inr 68
   \<and> scoreBillRelevance reject_engine
     (JObj [(''subjects'', JArr (map JStr [''Air quality''])), (''title'', JStr ''Clean Air Act'')])
     ''clean air'' = Inr 88"
proof -
  have base: "scoreBillRelevance reject_engine
     (JObj ((''subjects'', JArr (map JStr [''Water''])) # [(''title'', JStr ''Clean Air Act'')]))
     ''clean air'' = Inr 68"
    by (simp add: string_defs regexp_defs scorer_defs js_defs)
  from subject_tags_add_twenty [OF base, of "[''Air quality'']"] base show ?thesis
    by (simp add: tag_matches_def string_defs)
qed

text \<open>
  Claim C7. For every bill and query, a bill with one matching subject tag should score
  at least 20 more than the same bill without a matching tag. At the query "(abc abc"
  the bill titled "Bill (ABC" has no score, with the matching tag "ABC policy" as with
  the tag "Water": the title is scored first, and the term "(abc", an unterminated
  group, makes the pattern constructor throw.
\<close>

theorem subject_bonus_lost_on_pattern_error:
  "tag_matches ''(abc abc'' ''ABC policy''
   \<and> \<not> tag_matches ''(abc abc'' ''Water''
   \<and> scoreBillRelevance eng
        (JObj [(''title'', JStr ''Bill (ABC''), (''subjects'', JArr [JStr ''ABC policy''])])
        ''(abc abc'' = Inl SyntaxError
   \<and> scoreBillRelevance eng
        (JObj [(''title'', JStr ''Bill (ABC''), (''subjects'', JArr [JStr ''Water''])])
        ''(abc abc'' = Inl SyntaxError"
  by (simp add: tag_matches_def string_defs regexp_defs scorer_defs js_defs)

section \<open>The ranking adapters\<close>

lemma bind_Inr: "bind (Inr v) f = f v"
  by (simp add: bind_def)

lemma mapM_length: "mapM f xs = Inr ys \<Longrightarrow> length ys = length xs"
  by (induction xs arbitrary: ys) (auto simp add: bind_def split: sum.splits)

text \<open>When every candidate can be scored (and, for bills, the debugging line can print
  the titles), the ranking returns as many records as the limit and the candidates
  allow: the first of the sorted candidates of score 5 or more when these reach the
  limit, the first of all sorted candidates otherwise.\<close>

lemma rankDocuments_floor:
  assumes "mapM (\<lambda>doc. bind (scoreDocumentRelevance eng doc query) (\<lambda>s. Inr (s, doc)))
             documents = Inr scored"
  shows "\<exists>r. rankDocuments eng query limit documents = Inr r
            \<and> length r = min limit (length documents)
            \<and> r = map snd (take limit
                  (if limit \<le> length (filter (\<lambda>(s, d). 5 \<le> s) (sort_key (\<lambda>(s, d). - s) scored))
                   then filter (\<lambda>(s, d). 5 \<le> s) (sort_key (\<lambda>(s, d). - s) scored)
                   else sort_key (\<lambda>(s, d). - s) scored))"
proof -
  let ?sorted = "sort_key (\<lambda>(s, d). - s) scored"
  let ?high = "filter (\<lambda>(s, d). 5 \<le> s) ?sorted"
  have len: "length ?sorted = length documents"
    using mapM_length [OF assms] by simp
  have le: "length ?high \<le> length ?sorted" by (rule length_filter_le)
  show ?thesis
  proof (cases "limit \<le> length ?high")
    case True
    with le len show ?thesis
      by (simp add: rankDocuments_def assms bind_Inr Let_def min_def)
  next
    case False
    with le len show ?thesis
      by (cases "?sorted = []") (auto simp add: rankDocuments_def assms bind_Inr Let_def min_def)
  qed
qed

lemma rankBills_floor:
  assumes "mapM (\<lambda>bill. bind (scoreBillRelevance eng bill query) (\<lambda>s. Inr (s, bill)))
             bills = Inr scored"
    and "log_top_titles (sort_key (\<lambda>(s, b). - s) scored) = Inr ()"
  shows "\<exists>r. rankBills eng query limit bills = Inr r
            \<and> length r = min limit (length bills)
            \<and> r = map snd (take limit
                  (if limit \<le> length (filter (\<lambda>(s, b). 5 \<le> s) (sort_key (\<lambda>(s, b). - s) scored))
                   then filter (\<lambda>(s, b). 5 \<le> s) (sort_key (\<lambda>(s, b). - s) scored)
                   else sort_key (\<lambda>(s, b). - s) scored))"
proof -
  let ?sorted = "sort_key (\<lambda>(s, d). - s) scored"
  let ?high = "filter (\<lambda>(s, d). 5 \<le> s) ?sorted"
  have len: "length ?sorted = length bills"
    using mapM_length [OF assms(1)] by simp
  have le: "length ?high \<le> length ?sorted" by (rule length_filter_le)
  show ?thesis
  proof (cases "limit \<le> length ?high")
    case True
    with le len assms(2) show ?thesis
      by (simp add: rankBills_def assms(1) bind_Inr Let_def min_def)
  next
    case False
    with le len assms(2) show ?thesis
      by (cases "?sorted = []") (auto simp add: rankBills_def assms(1) bind_Inr Let_def min_def)
  qed
qed

text \<open>
  Claim C1. With a limit of at least 1 and a non-empty list of candidates from the
  upstream, the two scoring searches should return as many records as the limit and
  the candidates allow, never none. For the query "emissions (epa" and one candidate
  titled "Emissions Standards (EPA)", scoring throws on the term "(epa", the handler of
  \<^verbatim>\<open>searchDocuments\<close> takes over, and the result is empty whatever the limit.
\<close>

theorem searchDocuments_empty_despite_candidates:
  "searchDocuments eng ''emissions (epa'' limit
     (\<lambda>req. Reply 200 (JObj [(''results'',
        JArr [JObj [(''document_number'', JStr ''2024-00001''),
                    (''title'', JStr ''Emissions Standards (EPA)'')]])]))
   = Inr []"
  by (simp add: string_defs regexp_defs scorer_defs js_defs ranking_defs)

text \<open>The debugging line of \<^verbatim>\<open>searchBills\<close> has the same effect on a candidate without
  a title: \<^verbatim>\<open>b.title.substring\<close> throws and the result is empty.\<close>

lemma searchBills_untitled_bill:
  "searchBills eng apiKey ''tax'' congress limit
     (\<lambda>req. Reply 200 (JObj [(''bills'', JArr [JObj [(''number'', JNum 1)]])]))
   = Inr []"
  by (simp add: string_defs regexp_defs scorer_defs js_defs ranking_defs)

text \<open>
  Claim C10. The query "(abc" keeps the term "(abc", an unterminated group; the text
  "Bill (ABC" contains it, so scoring that text throws instead of returning a number;
  \<^verbatim>\<open>searchBills\<close>, given one candidate with that title, returns the empty list, and
  returns it normally.
\<close>

theorem searchBills_swallows_pattern_error:
  "queryTerms ''(abc'' = [''(abc'']
   \<and> unterminated_group ''(abc''
   \<and> str_includes (toLowerCase ''Bill (ABC'') ''(abc''
   \<and> calculateRelevanceScore eng ''Bill (ABC'' ''(abc'' = Inl SyntaxError
   \<and> searchBills eng apiKey ''(abc'' congress limit
        (\<lambda>req. Reply 200 (JObj [(''bills'', JArr [JObj [(''title'', JStr ''Bill (ABC'')]])]))
       = Inr []"
  by (simp add: string_defs regexp_defs scorer_defs js_defs ranking_defs)

section \<open>Failures of the upstream\<close>

lemma adapter_returns: "\<exists>r. try_catch body (\<lambda>error. Inr d) = Inr r"
  by (cases body) (simp_all add: try_catch_def)

lemma adapter_failed:
  "request_failed (net req) \<Longrightarrow>
   try_catch (bind (axios_get default_validate net req) f) (\<lambda>error. Inr d) = Inr d"
  by (cases "net req") (simp_all add: try_catch_def bind_def axios_get_def)

lemma searchCode_failed:
  "code_request_failed (net req) \<Longrightarrow>
   try_catch (bind (axios_get (\<lambda>status. status < 500) net req)
                (\<lambda>(status, data). if 400 \<le> status then Inr [] else g status data))
     (\<lambda>error. Inr []) = Inr []"
  by (cases "net req") (simp_all add: try_catch_def bind_def axios_get_def)

lemma congress_adapters:
  "(\<exists>r. searchBills eng k q c l net = Inr r)
   \<and> (\<exists>r. getBillDetails k n ty m net = Inr r)
   \<and> (\<exists>r. getRecentBills k c l net = Inr r)
   \<and> (\<exists>r. searchVotes k c ch l net = Inr r)
   \<and> (\<exists>r. getCommittees k c ch net = Inr r)"
  by (simp add: searchBills_def getBillDetails_def getRecentBills_def searchVotes_def
      getCommittees_def adapter_returns)


lemma other_adapters:
  "(\<exists>r. searchDocuments eng q l net = Inr r)
   \<and> (\<exists>r. getRecentDocuments l net = Inr r)
   \<and> (\<exists>r. getDocumentDetails dn net = Inr r)
   \<and> (\<exists>r. searchCode q t l net = Inr r)
   \<and> (\<exists>r. getSection n sec net = Inr r)
   \<and> (\<exists>r. searchOpinions fmt k q court l net = Inr r)
   \<and> (\<exists>r. getRecentOpinions fmt k court l net = Inr r)
   \<and> (\<exists>r. getOpinion k oid net = Inr r)
   \<and> (\<exists>r. searchComments rk q l net = Inr r)"
  by (simp add: searchDocuments_def getRecentDocuments_def getDocumentDetails_def
      searchCode_def getSection_def searchOpinions_def getRecentOpinions_def getOpinion_def
      searchComments_def adapter_returns)





















section \<open>The aggregate search\<close>

lemma ceil_quarter_div: "ceil_quarter limit = (limit + 3) div 4"
  unfolding ceil_quarter_def by linarith

lemma adapter_failed_at:
  "\<forall>req. url req = a \<longrightarrow> request_failed (net req) \<Longrightarrow> url r = a \<Longrightarrow>
   try_catch (bind (axios_get default_validate net r) f) (\<lambda>error. Inr d) = Inr d"
  by (simp add: adapter_failed)

lemma searchCode_failed_at:
  "\<forall>req. url req = a \<longrightarrow> code_request_failed (net req) \<Longrightarrow> url r = a \<Longrightarrow>
   try_catch (bind (axios_get (\<lambda>status. status < 500) net r)
                (\<lambda>(status, data). if 400 \<le> status then Inr [] else g status data))
     (\<lambda>error. Inr []) = Inr []"
  by (simp add: searchCode_failed)

text \<open>
  Claim C3. \<^verbatim>\<open>searchAll\<close> runs the four searches (bills, Federal Register documents,
  US Code sections, public comments), each with the limit \<^verbatim>\<open>Math.ceil(limit / 4)\<close>, and
  returns an object with the four keys \<^verbatim>\<open>bills\<close>, \<^verbatim>\<open>regulations\<close>,
  \<^verbatim>\<open>codeSections\<close> and \<^verbatim>\<open>comments\<close>; a source whose request fails contributes the
  empty list, whatever the other sources do.
\<close>

theorem searchAll_four_sources:
  "\<exists>bills regulations codeSections comments.
     searchBills eng (congress_key keys) query None (ceil_quarter limit) net = Inr bills
   \<and> searchDocuments eng query (ceil_quarter limit) net = Inr regulations
   \<and> searchCode query None (ceil_quarter limit) net = Inr codeSections
   \<and> searchComments (regulations_key keys) query (ceil_quarter limit) net = Inr comments
   \<and> searchAll eng keys query limit net
       = Inr (JObj [(''bills'', JArr bills), (''regulations'', JArr regulations),
                    (''codeSections'', JArr codeSections), (''comments'', JArr comments)])
   \<and> ceil_quarter limit = (limit + 3) div 4
   \<and> ((\<forall>req. url req = CONGRESS @ ''/bill'' \<longrightarrow> request_failed (net req))
        \<longrightarrow> bills = [])
   \<and> ((\<forall>req. url req = FEDERAL_REGISTER @ ''/documents'' \<longrightarrow> request_failed (net req))
        \<longrightarrow> regulations = [])
   \<and> ((\<forall>req. url req = US_CODE @ ''/search'' \<longrightarrow> code_request_failed (net req))
        \<longrightarrow> codeSections = [])
   \<and> ((\<forall>req. url req = REGULATIONS_GOV @ ''/comments'' \<longrightarrow> request_failed (net req))
        \<longrightarrow> comments = [])"
proof -
  obtain bills where b: "searchBills eng (congress_key keys) query None (ceil_quarter limit) net = Inr bills"
    using congress_adapters by blast
  obtain regulations where r: "searchDocuments eng query (ceil_quarter limit) net = Inr regulations"
    using other_adapters by blast
  obtain codeSections where c: "searchCode query None (ceil_quarter limit) net = Inr codeSections"
    using other_adapters by blast
  obtain comments where m: "searchComments (regulations_key keys) query (ceil_quarter limit) net = Inr comments"
    using other_adapters by blast
  have all: "searchAll eng keys query limit net
       = Inr (JObj [(''bills'', JArr bills), (''regulations'', JArr regulations),
                    (''codeSections'', JArr codeSections), (''comments'', JArr comments)])"
    by (simp add: searchAll_def b r c m bind_def)
  have fb: "bills = []" if "\<forall>req. url req = CONGRESS @ ''/bill'' \<longrightarrow> request_failed (net req)"
    using b by (simp add: searchBills_def adapter_failed_at [OF that])
  have fr: "regulations = []"
    if "\<forall>req. url req = FEDERAL_REGISTER @ ''/documents'' \<longrightarrow> request_failed (net req)"
    using r by (simp add: searchDocuments_def adapter_failed_at [OF that])
  have fc: "codeSections = []"
    if "\<forall>req. url req = US_CODE @ ''/search'' \<longrightarrow> code_request_failed (net req)"
    using c by (simp add: searchCode_def searchCode_failed_at [OF that])
  have fm: "comments = []"
    if "\<forall>req. url req = REGULATIONS_GOV @ ''/comments'' \<longrightarrow> request_failed (net req)"
    using m by (simp add: searchComments_def adapter_failed_at [OF that])
  from b r c m all fb fr fc fm ceil_quarter_div show ?thesis by blast
qed

text \<open>Claim C3 with the limit 20, the Congress source timing out and the other
  sources answering.\<close>

theorem searchAll_four_sources_witness:
  "\<exists>regulations codeSections.
     searchAll reject_engine \<lparr>congress_key = [], regulations_key = [], court_key = []\<rparr>
       ''clean air'' 20
       (\<lambda>req. if url req = CONGRESS @ ''/bill'' then Unreachable ''ETIMEDOUT''
              else Reply 200 (JObj [(''results'', JArr [JObj [(''title'', JStr ''Clean Air'')]])]))
     = Inr (JObj [(''bills'', JArr []), (''regulations'', JArr regulations),
                  (''codeSections'', JArr codeSections), (''comments'', JArr [])])
     \<and> length regulations = 1 \<and> length codeSections = 1
     \<and> ceil_quarter 20 = 5"
proof -
  let ?net = "\<lambda>req. if url req = CONGRESS @ ''/bill'' then Unreachable ''ETIMEDOUT''
              else Reply 200 (JObj [(''results'', JArr [JObj [(''title'', JStr ''Clean Air'')]])])"
  let ?keys = "\<lparr>congress_key = [], regulations_key = [], court_key = []\<rparr>"
  have down: "\<forall>req. url req = CONGRESS @ ''/bill'' \<longrightarrow> request_failed (?net req)"
    by simp
  have five: "ceil_quarter 20 = 5" by (simp add: ceil_quarter_def)
  have regs: "\<exists>d. searchDocuments reject_engine ''clean air'' (ceil_quarter 20) ?net = Inr [d]"
    by (simp add: five Let_def string_defs regexp_defs scorer_defs js_defs ranking_defs
        CONGRESS_def FEDERAL_REGISTER_def)
  have secs: "\<exists>d. searchCode ''clean air'' None (ceil_quarter 20) ?net = Inr [d]"
    by (simp add: five searchCode_def normalizeCodeSection_def js_defs axios_get_def
        CONGRESS_def US_CODE_def)
  have comments: "searchComments [] ''clean air'' (ceil_quarter 20) ?net = Inr []"
    by (simp add: searchComments_def normalizeComment_def js_defs axios_get_def
        default_validate_def CONGRESS_def REGULATIONS_GOV_def opt_param_def)
  from searchAll_four_sources [of reject_engine ?keys "''clean air''" 20 ?net] down regs secs comments five
  show ?thesis
    by auto
qed


section \<open>Court opinions\<close>











section \<open>Normalization copies values\<close>

lemma leaves_fld: "leaves (fld v k) \<subseteq> leaves v"
proof (cases v)
  case (JObj kvs)
  show ?thesis
  proof (cases "map_of kvs k")
    case None
    then show ?thesis by (simp add: JObj)
  next
    case (Some x)
    then have "(k, x) \<in> set kvs" by (rule map_of_SomeD)
    then show ?thesis using Some by (force simp add: JObj)
  qed
qed simp_all



lemma leaves_js_or_iff [simp]:
  "leaves a \<subseteq> S \<Longrightarrow> leaves b \<subseteq> S \<Longrightarrow> (leaves (js_or a b) \<subseteq> S) = True"
  by (simp add: js_or_def)

lemma leaves_fld_insert [simp]: "leaves (fld v k) \<subseteq> insert x (leaves v)"
  using leaves_fld [of v k] by blast








































end
